theory Spec2Isabelle
  imports Complex_Main "HOL-Library.Sublist"
begin

section \<open>Restaurant quality analysis: data model\<close>

text \<open>
  The development follows \<^verbatim>\<open>restaurant_quality.py\<close> (class
  \<^verbatim>\<open>RestaurantQualityAnalyzer\<close>) and the pagination code that
  \<^verbatim>\<open>restaurant_analyzer.py\<close> shares with it.  A Python float is modelled as the
  real number it holds; the rounding of binary64 arithmetic is written out where a result
  is truncated to an integer (the number of steps of the grid) and is left out elsewhere.
  Python integers are \<open>int\<close>, and \<^verbatim>\<open>Optional[...]\<close> fields are \<open>option\<close>.
\<close>

record RestaurantQuality =
  place_id :: string
  name :: string
  lat :: real
  lng :: real
  rating :: "real option"
  price_level :: "int option"
  user_ratings_total :: "int option"
  types :: "string list option"
  vicinity :: "string option"
  quality_score :: "real option"

section \<open>Quality score\<close>

text \<open>
  \<^verbatim>\<open>round(score, 2)\<close>: the closest multiple of \<open>1/100\<close>, a tie going to the even
  multiple.
\<close>

definition py_round2 :: "real \<Rightarrow> real" where
  "py_round2 x =
     (let y = x * 100; f = \<lfloor>y\<rfloor>; d = y - of_int f
      in (if d < 1 / 2 then of_int f
          else if 1 / 2 < d then of_int (f + 1)
          else if even f then of_int f else of_int (f + 1)) / 100)"

text \<open>
  Lines 126--131: the adjustment of the score for the number of reviews.  The guard is
  \<^verbatim>\<open>if restaurant.user_ratings_total:\<close>, a truthiness test: \<^verbatim>\<open>None\<close> and
  \<open>0\<close> are false, every other integer is true.
\<close>

definition review_adjusted :: "RestaurantQuality \<Rightarrow> real \<Rightarrow> real" where
  "review_adjusted restaurant score =
     (case user_ratings_total restaurant of
        None \<Rightarrow> score
      | Some n \<Rightarrow>
          if n \<noteq> 0 then
            (let review_factor = min (of_int n / 100) 1.0
             in score * (0.7 + 0.3 * review_factor))
          else score)"

text \<open>Lines 133--140: the adjustment of the score for the price level.\<close>

definition price_adjusted :: "RestaurantQuality \<Rightarrow> real \<Rightarrow> real" where
  "price_adjusted restaurant score =
     (case price_level restaurant of
        None \<Rightarrow> score
      | Some p \<Rightarrow>
          if p = 2 \<or> p = 3 then score * 1.05
          else if p = 4 then score * 1.02
          else score)"

definition calculate_quality_score :: "RestaurantQuality \<Rightarrow> real option" where
  "calculate_quality_score restaurant =
     (case rating restaurant of
        None \<Rightarrow> None
      | Some r \<Rightarrow> Some (py_round2 (price_adjusted restaurant (review_adjusted restaurant r))))"

section \<open>City metrics\<close>

text \<open>
  One row of the data frame that \<^verbatim>\<open>analyze_city_restaurant_quality\<close> builds
  (lines 176--191).  A missing number (\<^verbatim>\<open>None\<close>, stored by pandas as NaN) is
  \<open>None\<close>.  A data frame is the list of its rows, in index order; it is
  \<^verbatim>\<open>empty\<close> when it has no row.
\<close>

record row =
  col_place_id :: string
  col_name :: string
  col_lat :: real
  col_lng :: real
  col_rating :: "real option"
  col_price_level :: "int option"
  col_user_ratings_total :: "int option"
  col_quality_score :: "real option"
  col_types :: string
  col_vicinity :: "string option"
  col_city :: string

type_synonym DataFrame = "row list"

record metrics =
  total_restaurants :: nat
  avg_rating :: "real option"
  avg_quality_score :: "real option"
  high_rated_count :: nat
  low_rated_count :: nat
  expensive_count :: nat
  budget_count :: nat
  well_reviewed_count :: nat
  quality_categories :: "(string \<times> nat) list option"

text \<open>
  \<^verbatim>\<open>Series.mean()\<close> skips the missing values; the mean of no value at all is NaN,
  here \<open>None\<close>.
\<close>

definition series_mean :: "real option list \<Rightarrow> real option" where
  "series_mean col =
     (let vs = [v. Some v \<leftarrow> col]
      in if vs = [] then None else Some (sum_list vs / of_nat (length vs)))"

text \<open>A comparison with a missing value is false, as a comparison with NaN is.\<close>

definition rating_in :: "real \<Rightarrow> real option \<Rightarrow> row \<Rightarrow> bool" where
  "rating_in lo hi r =
     (case col_rating r of
        None \<Rightarrow> False
      | Some x \<Rightarrow> lo \<le> x \<and> (case hi of None \<Rightarrow> True | Some h \<Rightarrow> x < h))"

definition rating_below :: "real \<Rightarrow> row \<Rightarrow> bool" where
  "rating_below hi r = (case col_rating r of None \<Rightarrow> False | Some x \<Rightarrow> x < hi)"

definition price_level_isin :: "int list \<Rightarrow> row \<Rightarrow> bool" where
  "price_level_isin ps r = (case col_price_level r of None \<Rightarrow> False | Some p \<Rightarrow> p \<in> set ps)"

definition reviews_at_least :: "int \<Rightarrow> row \<Rightarrow> bool" where
  "reviews_at_least n r = (case col_user_ratings_total r of None \<Rightarrow> False | Some c \<Rightarrow> n \<le> c)"

text \<open>
  The dictionary returned by \<^verbatim>\<open>calculate_city_quality_metrics\<close>.  The key
  \<^verbatim>\<open>quality_categories\<close> is set in the empty branch (to the empty dictionary) and,
  in the other branch, only when some row has a rating; \<open>None\<close> stands for the
  absent key.
\<close>

definition calculate_city_quality_metrics :: "DataFrame \<Rightarrow> metrics" where
  "calculate_city_quality_metrics df =
     (if df = [] then
        \<lparr>total_restaurants = 0, avg_rating = None, avg_quality_score = None,
         high_rated_count = 0, low_rated_count = 0, expensive_count = 0, budget_count = 0,
         well_reviewed_count = 0, quality_categories = Some []\<rparr>
      else
        (let rated_df = filter (\<lambda>r. col_rating r \<noteq> None) df
         in \<lparr>total_restaurants = length df,
             avg_rating = (if rated_df \<noteq> [] then series_mean (map col_rating rated_df) else None),
             avg_quality_score =
               (if rated_df \<noteq> [] then series_mean (map col_quality_score rated_df) else None),
             high_rated_count = length (filter (rating_in 4.0 None) rated_df),
             low_rated_count = length (filter (rating_below 3.0) rated_df),
             expensive_count = length (filter (price_level_isin [3, 4]) df),
             budget_count = length (filter (price_level_isin [1, 2]) df),
             well_reviewed_count = length (filter (reviews_at_least 50) df),
             quality_categories =
               (if rated_df \<noteq> [] then
                  Some [(''Excellent (4.5+)'', length (filter (rating_in 4.5 None) rated_df)),
                        (''Very Good (4.0-4.4)'', length (filter (rating_in 4.0 (Some 4.5)) rated_df)),
                        (''Good (3.5-3.9)'', length (filter (rating_in 3.5 (Some 4.0)) rated_df)),
                        (''Average (3.0-3.4)'', length (filter (rating_in 3.0 (Some 3.5)) rated_df)),
                        (''Below Average (<3.0)'', length (filter (rating_below 3.0) rated_df))]
                else None)\<rparr>))"

section \<open>Parsing a response page\<close>

text \<open>
  One element of \<^verbatim>\<open>response['results']\<close>.  The optional keys are read with
  \<^verbatim>\<open>place.get\<close>; a key that is absent (or null) is \<open>None\<close>.  The coordinates
  \<^verbatim>\<open>place['geometry']['location']\<close> are read without a default: they are mandatory
  in a place record of the provider, and a plain field here.
\<close>

record place =
  get_place_id :: "string option"
  get_name :: "string option"
  geometry_location_lat :: real
  geometry_location_lng :: real
  get_rating :: "real option"
  get_price_level :: "int option"
  get_user_ratings_total :: "int option"
  get_types :: "string list option"
  get_vicinity :: "string option"

record response =
  status :: "string option"
  results :: "place list option"
  next_page_token :: "string option"

definition get_default :: "'a option \<Rightarrow> 'a \<Rightarrow> 'a" where
  "get_default v d = (case v of None \<Rightarrow> d | Some x \<Rightarrow> x)"

text \<open>Lines 100--110: the entity as constructed, its score still unset.\<close>

definition raw_restaurant :: "place \<Rightarrow> RestaurantQuality" where
  "raw_restaurant p =
     \<lparr>place_id = get_default (get_place_id p) [],
      name = get_default (get_name p) ''Unnamed'',
      lat = geometry_location_lat p,
      lng = geometry_location_lng p,
      rating = get_rating p,
      price_level = get_price_level p,
      user_ratings_total = get_user_ratings_total p,
      types = Some (get_default (get_types p) []),
      vicinity = Some (get_default (get_vicinity p) []),
      quality_score = None\<rparr>"

text \<open>Line 113: the score is computed from the entity and stored in it.\<close>

definition with_quality_score :: "RestaurantQuality \<Rightarrow> RestaurantQuality" where
  "with_quality_score restaurant =
     restaurant\<lparr>quality_score := calculate_quality_score restaurant\<rparr>"

fun parse_places :: "place list \<Rightarrow> RestaurantQuality list \<Rightarrow> RestaurantQuality list" where
  "parse_places [] restaurants = restaurants"
| "parse_places (p # ps) restaurants =
     parse_places ps (restaurants @ [with_quality_score (raw_restaurant p)])"

definition parse_restaurants_from_response :: "response \<Rightarrow> RestaurantQuality list" where
  "parse_restaurants_from_response resp = parse_places (get_default (results resp) []) []"

section \<open>The data frame and its deduplication\<close>

fun join_bar :: "string list \<Rightarrow> string" where
  "join_bar [] = []"
| "join_bar [t] = t"
| "join_bar (t # ts) = t @ ''|'' @ join_bar ts"

text \<open>Lines 177--189: the row of one entity.\<close>

definition row_of :: "string \<Rightarrow> RestaurantQuality \<Rightarrow> row" where
  "row_of city_name r =
     \<lparr>col_place_id = place_id r,
      col_name = name r,
      col_lat = lat r,
      col_lng = lng r,
      col_rating = rating r,
      col_price_level = price_level r,
      col_user_ratings_total = user_ratings_total r,
      col_quality_score = quality_score r,
      col_types = (case types r of None \<Rightarrow> [] | Some ts \<Rightarrow> join_bar ts),
      col_vicinity = vicinity r,
      col_city = city_name\<rparr>"

text \<open>
  \<^verbatim>\<open>df.drop_duplicates(subset='place_id')\<close> of pandas, with its default
  \<^verbatim>\<open>keep='first'\<close>: a row is dropped when an earlier row has the same
  \<^verbatim>\<open>place_id\<close>, whatever that string is.  \<open>seen\<close> holds the identifiers of the
  rows passed so far.
\<close>

fun drop_duplicates_from :: "string list \<Rightarrow> DataFrame \<Rightarrow> DataFrame" where
  "drop_duplicates_from seen [] = []"
| "drop_duplicates_from seen (r # rs) =
     (if col_place_id r \<in> set seen then drop_duplicates_from seen rs
      else r # drop_duplicates_from (col_place_id r # seen) rs)"

definition drop_duplicates :: "DataFrame \<Rightarrow> DataFrame" where
  "drop_duplicates df = drop_duplicates_from [] df"

text \<open>
  Lines 172--197: from the accumulated entities to the returned frame
  (\<^verbatim>\<open>reset_index(drop=True)\<close> renumbers the rows and leaves the list as it is).
\<close>

definition deduplicated_frame :: "string \<Rightarrow> RestaurantQuality list \<Rightarrow> DataFrame" where
  "deduplicated_frame city_name all_restaurants =
     (if all_restaurants = [] then []
      else drop_duplicates (map (row_of city_name) all_restaurants))"

text \<open>
  The pipeline of the code on the response pages it has fetched: every page is parsed
  and scored, the entities are accumulated in page order, and the frame is deduplicated.
\<close>

definition scored_then_deduplicated :: "string \<Rightarrow> response list \<Rightarrow> DataFrame" where
  "scored_then_deduplicated city_name responses =
     deduplicated_frame city_name (concat (map parse_restaurants_from_response responses))"

subsection \<open>The pipeline as the specification words it\<close>

text \<open>
  The specification's \<^verbatim>\<open>Deduplicator.merge\<close> with the provider identifier as key:
  the key is \<^verbatim>\<open>provider_id\<close> when non-empty; the first occurrence is kept and later
  ones are discarded.  An entity with an empty identifier has no key and is kept.
\<close>

fun spec_merge_from :: "string list \<Rightarrow> RestaurantQuality list \<Rightarrow> RestaurantQuality list" where
  "spec_merge_from seen [] = []"
| "spec_merge_from seen (e # es) =
     (if place_id e = [] then e # spec_merge_from seen es
      else if place_id e \<in> set seen then spec_merge_from seen es
      else e # spec_merge_from (place_id e # seen) es)"

definition spec_merge :: "RestaurantQuality list \<Rightarrow> RestaurantQuality list" where
  "spec_merge es = spec_merge_from [] es"

text \<open>
  The specification's \<^verbatim>\<open>discover\<close> after the sweep: accumulate the raw entities of
  all pages, merge, then score each survivor.  The result is given as a frame so that it
  can be compared with the code's.
\<close>

definition spec_raw_entities :: "response list \<Rightarrow> RestaurantQuality list" where
  "spec_raw_entities responses =
     concat (map (\<lambda>resp. map raw_restaurant (get_default (results resp) [])) responses)"

definition spec_deduplicated_then_scored :: "string \<Rightarrow> response list \<Rightarrow> DataFrame" where
  "spec_deduplicated_then_scored city_name responses =
     map (row_of city_name) (map with_quality_score (spec_merge (spec_raw_entities responses)))"

section \<open>The paginated search at one point\<close>

text \<open>
  The requests the code sends with \<^verbatim>\<open>requests.get\<close>: the first page of a nearby
  search (location and radius; the type and the key are constants) and a further page by
  its token.  The provider is any function from the requests sent so far, the current one
  last, to the outcome of the current one: either \<^verbatim>\<open>requests.RequestException\<close>
  is raised, or a JSON body is returned.  The list of requests sent is the state that
  every function below passes on; the delay between two pages is not part of the model.
\<close>

datatype request = NearbySearch real real int | PageToken string

datatype outcome = RequestException | Json response

type_synonym transport = "request list \<Rightarrow> outcome"

definition requests_get :: "transport \<Rightarrow> request list \<Rightarrow> request \<Rightarrow> request list \<times> outcome" where
  "requests_get net sent req = (sent @ [req], net (sent @ [req]))"

definition MAX_API_PAGES :: int where
  "MAX_API_PAGES = 10"

text \<open>
  Lines 79--91 of \<^verbatim>\<open>restaurant_quality.py\<close> and lines 89--107 of
  \<^verbatim>\<open>restaurant_analyzer.py\<close>: the same loop, over the parser of a page.  The loop
  goes on while the token is true (present and not the empty string) and
  \<^verbatim>\<open>page_count < max_pages\<close>; a request that raises leaves the loop.
\<close>

function pagination_loop ::
  "(response \<Rightarrow> 'a list) \<Rightarrow> transport \<Rightarrow> int \<Rightarrow> request list \<Rightarrow> 'a list \<Rightarrow> string option \<Rightarrow> int
    \<Rightarrow> request list \<times> 'a list" where
  "pagination_loop parse net max_pages sent restaurants token page_count =
     (case token of
        None \<Rightarrow> (sent, restaurants)
      | Some t \<Rightarrow>
          if t \<noteq> [] \<and> page_count < max_pages then
            (case net (sent @ [PageToken t]) of
               RequestException \<Rightarrow> (sent @ [PageToken t], restaurants)
             | Json next_response \<Rightarrow>
                 pagination_loop parse net max_pages (sent @ [PageToken t])
                   (restaurants @ parse next_response) (next_page_token next_response)
                   (page_count + 1))
          else (sent, restaurants))"
  by pat_completeness auto
termination
  by (relation "measure (\<lambda>(parse, net, max_pages, sent, restaurants, token, page_count).
        nat (max_pages - page_count))") auto

text \<open>
  Lines 46--76 and then the loop: the first page is requested whatever
  \<^verbatim>\<open>max_pages\<close> is; a request that raises, or a status other than \<^verbatim>\<open>OK\<close>,
  returns the empty list.
\<close>

definition paginated_search ::
  "(response \<Rightarrow> 'a list) \<Rightarrow> transport \<Rightarrow> request list \<Rightarrow> real \<Rightarrow> real \<Rightarrow> int \<Rightarrow> int option
    \<Rightarrow> request list \<times> 'a list" where
  "paginated_search parse net sent lat0 lng0 radius max_pages =
     (let max_pages = get_default max_pages MAX_API_PAGES;
          (sent1, r) = requests_get net sent (NearbySearch lat0 lng0 radius)
      in case r of
           RequestException \<Rightarrow> (sent1, [])
         | Json resp \<Rightarrow>
             if status resp \<noteq> Some ''OK'' then (sent1, [])
             else pagination_loop parse net max_pages sent1 ([] @ parse resp)
                    (next_page_token resp) 1)"

definition get_restaurants_with_quality ::
  "transport \<Rightarrow> request list \<Rightarrow> real \<Rightarrow> real \<Rightarrow> int \<Rightarrow> int option
    \<Rightarrow> request list \<times> RestaurantQuality list" where
  "get_restaurants_with_quality net sent lat0 lng0 radius max_pages =
     paginated_search parse_restaurants_from_response net sent lat0 lng0 radius max_pages"

text \<open>
  \<^verbatim>\<open>get_restaurants_near_point\<close> of \<^verbatim>\<open>restaurant_analyzer.py\<close> is the same search;
  it keeps of every place its coordinates and its name.
\<close>

definition restaurant_points_of_response :: "response \<Rightarrow> (real \<times> real \<times> string) list" where
  "restaurant_points_of_response resp =
     map (\<lambda>r. (geometry_location_lat r, geometry_location_lng r, get_default (get_name r) ''Unnamed''))
       (get_default (results resp) [])"

definition get_restaurants_near_point ::
  "transport \<Rightarrow> request list \<Rightarrow> real \<Rightarrow> real \<Rightarrow> int \<Rightarrow> int option
    \<Rightarrow> request list \<times> (real \<times> real \<times> string) list" where
  "get_restaurants_near_point net sent lat0 lng0 radius max_pages =
     paginated_search restaurant_points_of_response net sent lat0 lng0 radius max_pages"

section \<open>The grid sweep\<close>





text \<open>
  The binary64 number nearest to a real number, a tie going to the even significand:
  the result of a float operation whose exact result is \<open>x\<close>.  The significand has
  \<open>53\<close> bits, the exponent is at least \<open>- 1022\<close> (below that the numbers are
  subnormal); the exponent is not bounded above here, and a result of magnitude
  \<open>2 ^ 1024\<close> or more stands for an infinity.
\<close>

definition round_ties_even :: "real \<Rightarrow> int" where
  "round_ties_even y =
     (let f = \<lfloor>y\<rfloor>; d = y - of_int f
      in if d < 1 / 2 then f
         else if 1 / 2 < d then f + 1
         else if even f then f else f + 1)"

definition binary64_round :: "real \<Rightarrow> real" where
  "binary64_round x =
     (if x = 0 then 0
      else
        (let e = max \<lfloor>log 2 \<bar>x\<bar>\<rfloor> (- 1022);
             ulp = 2 powi (e - 52)
         in of_int (round_ties_even (x / ulp)) * ulp))"


text \<open>\<^verbatim>\<open>int(x)\<close> of a float: truncation towards zero.\<close>

definition py_int :: "real \<Rightarrow> int" where
  "py_int x = (if 0 \<le> x then \<lfloor>x\<rfloor> else \<lceil>x\<rceil>)"






text \<open>The sample points that have been queried: the locations of the first-page requests.\<close>

fun queried_points :: "request list \<Rightarrow> (real \<times> real) list" where
  "queried_points [] = []"
| "queried_points (NearbySearch la lo r # reqs) = (la, lo) # queried_points reqs"
| "queried_points (PageToken t # reqs) = queried_points reqs"



subsection \<open>The grid as the specification words it\<close>






section \<open>Example data\<close>

definition place_a :: place where
  "place_a =
     \<lparr>get_place_id = Some ''ChIJ-a'', get_name = Some ''Cafe A'',
      geometry_location_lat = 37.4419, geometry_location_lng = - 122.1430,
      get_rating = Some 4.8, get_price_level = Some 3, get_user_ratings_total = Some 500,
      get_types = Some [''cafe'', ''restaurant''], get_vicinity = Some ''1 Main St''\<rparr>"

text \<open>The same place seen from another sample point, with other raw coordinates.\<close>

definition place_a_again :: place where
  "place_a_again =
     place_a\<lparr>geometry_location_lat := 37.4420, geometry_location_lng := - 122.1431,
       get_rating := Some 4.7\<rparr>"

text \<open>Two different places that carry no \<^verbatim>\<open>place_id\<close>.\<close>

definition place_b :: place where
  "place_b =
     \<lparr>get_place_id = None, get_name = Some ''Diner B'',
      geometry_location_lat = 37.4500, geometry_location_lng = - 122.1500,
      get_rating = Some 4.7, get_price_level = Some 2, get_user_ratings_total = Some 15,
      get_types = None, get_vicinity = None\<rparr>"

definition place_c :: place where
  "place_c =
     \<lparr>get_place_id = None, get_name = Some ''Grill C'',
      geometry_location_lat = 37.4300, geometry_location_lng = - 122.1300,
      get_rating = None, get_price_level = None, get_user_ratings_total = None,
      get_types = None, get_vicinity = None\<rparr>"

definition ok_page :: "place list \<Rightarrow> string option \<Rightarrow> response" where
  "ok_page ps token = \<lparr>status = Some ''OK'', results = Some ps, next_page_token = token\<rparr>"

text \<open>
  A provider whose first page is fine and announces a second page, and whose second page
  carries the status \<^verbatim>\<open>OVER_QUERY_LIMIT\<close> together with a result.
\<close>

definition quota_page :: response where
  "quota_page = \<lparr>status = Some ''OVER_QUERY_LIMIT'', results = Some [place_b], next_page_token = None\<rparr>"

definition quota_on_second_page :: transport where
  "quota_on_second_page sent =
     (if length sent = 1 then Json (ok_page [place_a] (Some ''token-2'')) else Json quota_page)"

text \<open>
  The float that the literal \<^verbatim>\<open>0.1\<close> denotes: \<open>3602879701896397 / 2 ^ 55\<close>, the
  binary64 number nearest to one tenth and a little above it.
\<close>

definition float_0_1 :: real where
  "float_0_1 = 3602879701896397 / 36028797018963968"

text \<open>The float that the literal \<^verbatim>\<open>0.3\<close> denotes: \<open>5404319552844595 / 2 ^ 54\<close>.\<close>

definition float_0_3 :: real where
  "float_0_3 = 5404319552844595 / 18014398509481984"


section \<open>Properties of the quality score\<close>

lemma review_adjusted_nonzero:
  "user_ratings_total restaurant = Some n \<Longrightarrow> n \<noteq> 0 \<Longrightarrow>
   review_adjusted restaurant score = score * (0.7 + 0.3 * min (of_int n / 100) 1.0)"
  by (simp add: review_adjusted_def)

lemma review_adjusted_absent:
  "user_ratings_total restaurant = None \<Longrightarrow> review_adjusted restaurant score = score"
  by (simp add: review_adjusted_def)

text \<open>
  Claim C2.  The claim: whenever the rating and the review count are both present, the
  base is multiplied by \<open>0.7 + 0.3 * min (review_count / 100) 1\<close>, so a review count of
  \<open>0\<close> multiplies the base by \<open>0.7\<close>.  The code tests the review count for truth, so
  a count of \<open>0\<close> is skipped like a missing one: with rating \<open>4.0\<close>, \<open>0\<close> reviews and
  no price level the review step leaves the base at \<open>4\<close> and the score is \<open>4\<close>, not the
  \<open>2.8\<close> of the claim.
\<close>

theorem zero_reviews_not_weighted:
  "review_adjusted
     \<lparr>place_id = ''a'', name = ''A'', lat = 0, lng = 0, rating = Some 4.0, price_level = None,
      user_ratings_total = Some 0, types = None, vicinity = None, quality_score = None\<rparr> 4.0 = 4
   \<and> calculate_quality_score
     \<lparr>place_id = ''a'', name = ''A'', lat = 0, lng = 0, rating = Some 4.0, price_level = None,
      user_ratings_total = Some 0, types = None, vicinity = None, quality_score = None\<rparr> = Some 4
   \<and> py_round2 (4.0 * (0.7 + 0.3 * min (of_int 0 / 100) 1.0)) = 2.8"
  by (simp add: review_adjusted_def calculate_quality_score_def price_adjusted_def
      py_round2_def Let_def)

text \<open>
  Claim C5.  The scorer returns \<open>None\<close> exactly when the rating is \<open>None\<close>: no score
  without a rating, whatever the price level and the review count are, and a score for
  every rated entity.
\<close>

theorem score_none_iff_rating_none:
  "calculate_quality_score restaurant = None \<longleftrightarrow> rating restaurant = None"
  by (simp add: calculate_quality_score_def split: option.split)

text \<open>
  Claim C6.  The two scoring scenarios: rating \<open>4.8\<close>, \<open>500\<close> reviews, price level \<open>3\<close>
  scores \<open>5.04\<close>; rating \<open>4.7\<close>, \<open>15\<close> reviews, price level \<open>2\<close> scores \<open>3.68\<close>.
\<close>

theorem scoring_scenarios:
  "calculate_quality_score
     \<lparr>place_id = ''test1'', name = ''Excellent Restaurant'', lat = 37.4419, lng = - 122.1430,
      rating = Some 4.8, price_level = Some 3, user_ratings_total = Some 500,
      types = None, vicinity = None, quality_score = None\<rparr> = Some 5.04
   \<and> calculate_quality_score
     \<lparr>place_id = ''test2'', name = ''New Good Place'', lat = 37.4419, lng = - 122.1430,
      rating = Some 4.7, price_level = Some 2, user_ratings_total = Some 15,
      types = None, vicinity = None, quality_score = None\<rparr> = Some 3.68"
  by (simp add: calculate_quality_score_def price_adjusted_def review_adjusted_def
      py_round2_def Let_def)

section \<open>Properties of the city metrics\<close>

text \<open>
  Claim C8.  On the empty entity set the metrics are returned without any division: the
  total and the five counts are \<open>0\<close>, both averages are \<open>None\<close>, and the rating
  distribution is the empty dictionary, so that no tier has a count other than \<open>0\<close>.
\<close>

theorem empty_metrics:
  "calculate_city_quality_metrics [] =
     \<lparr>total_restaurants = 0, avg_rating = None, avg_quality_score = None,
      high_rated_count = 0, low_rated_count = 0, expensive_count = 0, budget_count = 0,
      well_reviewed_count = 0, quality_categories = Some []\<rparr>
   \<and> sum_list (map snd (the (quality_categories (calculate_city_quality_metrics [])))) = 0"
  by (simp add: calculate_city_quality_metrics_def)

section \<open>Properties of the deduplication\<close>

lemma filter_drop_duplicates_from:
  "filter (\<lambda>r. col_place_id r = pid) (drop_duplicates_from seen df) =
     (if pid \<in> set seen then [] else take 1 (filter (\<lambda>r. col_place_id r = pid) df))"
proof (induction df arbitrary: seen)
  case Nil
  show ?case by simp
next
  case (Cons r rs)
  show ?case
  proof (cases "col_place_id r \<in> set seen")
    case True
    then show ?thesis using Cons.IH [of seen] by auto
  next
    case False
    then show ?thesis using Cons.IH [of "col_place_id r # seen"] by auto
  qed
qed

lemma subseq_drop_duplicates_from: "subseq (drop_duplicates_from seen df) df"
  by (induction df arbitrary: seen) auto

text \<open>
  Claim C4, as the code has it.  Among the rows of the frame, in traversal order, the
  deduplication keeps for every \<^verbatim>\<open>place_id\<close> value \<open>pid\<close> (the empty string
  included) exactly the first row that carries it, the row itself with every field as it
  was, and drops the later rows with that value; the kept rows stay in their order.
\<close>

theorem first_row_per_place_id:
  "filter (\<lambda>r. col_place_id r = pid) (drop_duplicates df) =
     take 1 (filter (\<lambda>r. col_place_id r = pid) df)
   \<and> subseq (drop_duplicates df) df"
  by (simp add: drop_duplicates_def filter_drop_duplicates_from subseq_drop_duplicates_from)

text \<open>
  The claim as stated also says that two entities with an empty identifier are not
  identified with each other.  They are: of two different places without a
  \<^verbatim>\<open>place_id\<close> only the first survives.
\<close>

theorem empty_place_id_rows_identified:
  "place_id (raw_restaurant place_b) = [] \<and> place_id (raw_restaurant place_c) = []
   \<and> name (raw_restaurant place_b) \<noteq> name (raw_restaurant place_c)
   \<and> deduplicated_frame ''Palo Alto''
        [with_quality_score (raw_restaurant place_b), with_quality_score (raw_restaurant place_c)] =
      [row_of ''Palo Alto'' (with_quality_score (raw_restaurant place_b))]"
  by (simp add: deduplicated_frame_def drop_duplicates_def row_of_def with_quality_score_def
      raw_restaurant_def place_b_def place_c_def get_default_def)

section \<open>Scoring before or after the deduplication\<close>

lemma parse_places_eq:
  "parse_places ps acc = acc @ map (\<lambda>p. with_quality_score (raw_restaurant p)) ps"
  by (induction ps arbitrary: acc) auto

lemma parsed_eq_scored_raw:
  "concat (map parse_restaurants_from_response responses) =
     map with_quality_score (spec_raw_entities responses)"
  by (induction responses)
     (simp_all add: parse_restaurants_from_response_def spec_raw_entities_def parse_places_eq)

lemma col_place_id_row_of [simp]:
  "col_place_id (row_of c (with_quality_score e)) = place_id e"
  by (simp add: row_of_def with_quality_score_def)

lemma drop_duplicates_from_spec_merge_from:
  "(if [] \<in> set seen then filter (\<lambda>e. place_id e = []) es = []
    else length (filter (\<lambda>e. place_id e = []) es) \<le> 1) \<Longrightarrow>
   drop_duplicates_from seen (map (\<lambda>e. row_of c (with_quality_score e)) es) =
     map (\<lambda>e. row_of c (with_quality_score e)) (spec_merge_from (filter (\<lambda>k. k \<noteq> []) seen) es)"
proof (induction es arbitrary: seen)
  case Nil
  show ?case by simp
next
  case (Cons e es)
  show ?case
  proof (cases "place_id e = []")
    case True
    with Cons.prems have notin: "[] \<notin> set seen" and rest: "filter (\<lambda>e. place_id e = []) es = []"
      by (auto split: if_splits)
    have "drop_duplicates_from ([] # seen) (map (\<lambda>e. row_of c (with_quality_score e)) es) =
        map (\<lambda>e. row_of c (with_quality_score e))
          (spec_merge_from (filter (\<lambda>k. k \<noteq> []) ([] # seen)) es)"
      by (rule Cons.IH) (simp add: rest)
    then show ?thesis using True notin by simp
  next
    case False
    have prem: "(if [] \<in> set s then filter (\<lambda>e. place_id e = []) es = []
        else length (filter (\<lambda>e. place_id e = []) es) \<le> 1)"
      if "([] \<in> set s) = ([] \<in> set seen)" for s
      using Cons.prems False that by (auto split: if_splits)
    show ?thesis
    proof (cases "place_id e \<in> set seen")
      case True
      then show ?thesis using False Cons.IH [of seen] prem [of seen] by simp
    next
      case notseen: False
      have "drop_duplicates_from (place_id e # seen) (map (\<lambda>e. row_of c (with_quality_score e)) es) =
        map (\<lambda>e. row_of c (with_quality_score e))
          (spec_merge_from (filter (\<lambda>k. k \<noteq> []) (place_id e # seen)) es)"
        by (rule Cons.IH, rule prem) (use False in auto)
      then show ?thesis using False notseen by simp
    qed
  qed
qed

text \<open>
  Claim C7, as the code has it.  For every sequence of response pages in which at most
  one entity has an empty identifier, scoring each entity when its page is parsed and
  deduplicating the frame afterwards gives the same rows, in the same order, as the
  specified pipeline, which merges the raw entities first and scores the survivors.
\<close>

theorem score_then_dedup_eq_spec:
  "length (filter (\<lambda>e. place_id e = []) (spec_raw_entities responses)) \<le> 1 \<Longrightarrow>
   scored_then_deduplicated city_name responses =
     spec_deduplicated_then_scored city_name responses"
proof -
  assume h: "length (filter (\<lambda>e. place_id e = []) (spec_raw_entities responses)) \<le> 1"
  have "drop_duplicates_from []
          (map (\<lambda>e. row_of city_name (with_quality_score e)) (spec_raw_entities responses)) =
        map (\<lambda>e. row_of city_name (with_quality_score e))
          (spec_merge_from (filter (\<lambda>k. k \<noteq> []) []) (spec_raw_entities responses))"
    by (rule drop_duplicates_from_spec_merge_from) (use h in simp)
  then show ?thesis
    by (simp add: scored_then_deduplicated_def spec_deduplicated_then_scored_def
        deduplicated_frame_def parsed_eq_scored_raw drop_duplicates_def spec_merge_def comp_def)
qed

text \<open>
  Two pages from overlapping sample points: the second repeats the first page's place
  under other coordinates, and one place has no identifier.
\<close>

theorem score_then_dedup_eq_spec_witness:
  "length (filter (\<lambda>e. place_id e = [])
     (spec_raw_entities [ok_page [place_a, place_b] None, ok_page [place_a_again] None])) \<le> 1
   \<and> scored_then_deduplicated ''Palo Alto''
        [ok_page [place_a, place_b] None, ok_page [place_a_again] None] =
      spec_deduplicated_then_scored ''Palo Alto''
        [ok_page [place_a, place_b] None, ok_page [place_a_again] None]
   \<and> length (scored_then_deduplicated ''Palo Alto''
        [ok_page [place_a, place_b] None, ok_page [place_a_again] None]) = 2"
proof -
  have h: "length (filter (\<lambda>e. place_id e = [])
     (spec_raw_entities [ok_page [place_a, place_b] None, ok_page [place_a_again] None])) \<le> 1"
    by (simp add: spec_raw_entities_def ok_page_def get_default_def raw_restaurant_def
        place_a_def place_a_again_def place_b_def)
  have l: "length (spec_deduplicated_then_scored ''Palo Alto''
        [ok_page [place_a, place_b] None, ok_page [place_a_again] None]) = 2"
    by (simp add: spec_deduplicated_then_scored_def spec_merge_def spec_raw_entities_def
        ok_page_def get_default_def raw_restaurant_def place_a_def place_a_again_def place_b_def)
  show ?thesis
    using h l score_then_dedup_eq_spec [OF h, of "''Palo Alto''"] by simp
qed

text \<open>
  With two entities without identifier the two pipelines differ: the code keeps one row,
  the specified merge keeps both.
\<close>

theorem score_then_dedup_differs_on_empty_ids:
  "length (scored_then_deduplicated ''Palo Alto'' [ok_page [place_b, place_c] None]) = 1
   \<and> length (spec_deduplicated_then_scored ''Palo Alto'' [ok_page [place_b, place_c] None]) = 2"
  by (simp add: scored_then_deduplicated_def spec_deduplicated_then_scored_def
      deduplicated_frame_def drop_duplicates_def spec_merge_def spec_raw_entities_def
      parse_restaurants_from_response_def ok_page_def get_default_def raw_restaurant_def
      with_quality_score_def row_of_def place_b_def place_c_def)


section \<open>Properties of the paginated search\<close>

declare pagination_loop.simps [simp del]

lemma queried_points_append:
  "queried_points (xs @ ys) = queried_points xs @ queried_points ys"
  by (induction xs rule: queried_points.induct) auto

lemma pagination_loop_sent:
  "prefix sent (fst (pagination_loop parse net max_pages sent restaurants token page_count))
   \<and> length (fst (pagination_loop parse net max_pages sent restaurants token page_count))
       \<le> length sent + nat (max_pages - page_count)
   \<and> queried_points (fst (pagination_loop parse net max_pages sent restaurants token page_count))
       = queried_points sent"
proof (induction parse net max_pages sent restaurants token page_count rule: pagination_loop.induct)
  case (1 parse net max_pages sent restaurants token page_count)
  show ?case
  proof (cases token)
    case None
    then have "pagination_loop parse net max_pages sent restaurants token page_count = (sent, restaurants)"
      by (subst pagination_loop.simps) simp
    then show ?thesis by simp
  next
    case (Some t)
    show ?thesis
    proof (cases "t \<noteq> [] \<and> page_count < max_pages")
      case False
      then have "pagination_loop parse net max_pages sent restaurants token page_count = (sent, restaurants)"
        using Some by (subst pagination_loop.simps) auto
      then show ?thesis by simp
    next
      case True
      show ?thesis
      proof (cases "net (sent @ [PageToken t])")
        case RequestException
        then have "pagination_loop parse net max_pages sent restaurants token page_count =
            (sent @ [PageToken t], restaurants)"
          using Some True by (subst pagination_loop.simps) simp
        then show ?thesis using True by (auto simp: queried_points_append)
      next
        case (Json next_response)
        have IH: "prefix (sent @ [PageToken t]) (fst (pagination_loop parse net max_pages (sent @ [PageToken t])
                   (restaurants @ parse next_response) (next_page_token next_response) (page_count + 1)))
          \<and> length (fst (pagination_loop parse net max_pages (sent @ [PageToken t])
                   (restaurants @ parse next_response) (next_page_token next_response) (page_count + 1)))
              \<le> length (sent @ [PageToken t]) + nat (max_pages - (page_count + 1))
          \<and> queried_points (fst (pagination_loop parse net max_pages (sent @ [PageToken t])
                   (restaurants @ parse next_response) (next_page_token next_response) (page_count + 1)))
              = queried_points (sent @ [PageToken t])"
          using "1.IH" [OF Some _ Json] True by simp
        have eq: "pagination_loop parse net max_pages sent restaurants token page_count =
           pagination_loop parse net max_pages (sent @ [PageToken t])
                   (restaurants @ parse next_response) (next_page_token next_response) (page_count + 1)"
          using Some True Json by (subst pagination_loop.simps) simp
        show ?thesis unfolding eq using IH True
          by (auto simp: queried_points_append dest: append_prefixD)
      qed
    qed
  qed
qed


lemma paginated_search_sent:
  "prefix (sent @ [NearbySearch la lo r]) (fst (paginated_search parse net sent la lo r max_pages))
   \<and> length (fst (paginated_search parse net sent la lo r max_pages))
       \<le> length sent + nat (max 1 (get_default max_pages MAX_API_PAGES))
   \<and> queried_points (fst (paginated_search parse net sent la lo r max_pages))
       = queried_points sent @ [(la, lo)]"
proof (cases "net (sent @ [NearbySearch la lo r])")
  case RequestException
  then show ?thesis
    by (simp add: paginated_search_def requests_get_def queried_points_append)
next
  case (Json resp)
  show ?thesis
  proof (cases "status resp = Some ''OK''")
    case False
    then show ?thesis using Json
      by (simp add: paginated_search_def requests_get_def queried_points_append)
  next
    case True
    have eq: "paginated_search parse net sent la lo r max_pages =
        pagination_loop parse net (get_default max_pages MAX_API_PAGES)
          (sent @ [NearbySearch la lo r]) (parse resp) (next_page_token resp) 1"
      using Json True by (simp add: paginated_search_def requests_get_def)
    show ?thesis
      unfolding eq
      using pagination_loop_sent [of "sent @ [NearbySearch la lo r]" parse net
          "get_default max_pages MAX_API_PAGES" "parse resp" "next_page_token resp" 1]
      by (auto simp: queried_points_append)
  qed
qed

text \<open>
  Claim C10.  Whatever \<^verbatim>\<open>max_pages\<close> is (\<open>None\<close> stands for the configured
  \<open>10\<close>), both search functions send the first-page request first, send at most
  \<open>max 1 max_pages\<close> requests in all, and with \<^verbatim>\<open>max_pages = 0\<close> send exactly the
  first-page request.  The loop is a total function: its termination is proved with the
  measure \<open>max_pages - page_count\<close>.
\<close>

theorem page_fetches_bounded:
  "prefix (sent @ [NearbySearch la lo r])
      (fst (get_restaurants_with_quality net sent la lo r max_pages))
   \<and> length (fst (get_restaurants_with_quality net sent la lo r max_pages))
       \<le> length sent + nat (max 1 (get_default max_pages MAX_API_PAGES))
   \<and> fst (get_restaurants_with_quality net sent la lo r (Some 0)) = sent @ [NearbySearch la lo r]
   \<and> prefix (sent @ [NearbySearch la lo r])
      (fst (get_restaurants_near_point net sent la lo r max_pages))
   \<and> length (fst (get_restaurants_near_point net sent la lo r max_pages))
       \<le> length sent + nat (max 1 (get_default max_pages MAX_API_PAGES))
   \<and> fst (get_restaurants_near_point net sent la lo r (Some 0)) = sent @ [NearbySearch la lo r]"
proof -
  have one: "fst (paginated_search parse net sent la lo r (Some 0)) = sent @ [NearbySearch la lo r]"
    for parse :: "response \<Rightarrow> 'a list"
  proof -
    have "prefix (sent @ [NearbySearch la lo r]) (fst (paginated_search parse net sent la lo r (Some 0)))"
      and "length (fst (paginated_search parse net sent la lo r (Some 0))) \<le> length sent + 1"
      using paginated_search_sent [of sent la lo r parse net "Some 0"]
      by (simp_all add: get_default_def)
    then show ?thesis
      by (auto simp: prefix_def)
  qed
  show ?thesis
    unfolding get_restaurants_with_quality_def get_restaurants_near_point_def
    using paginated_search_sent [of sent la lo r parse_restaurants_from_response net max_pages]
      paginated_search_sent [of sent la lo r restaurant_points_of_response net max_pages]
      one [of parse_restaurants_from_response] one [of restaurant_points_of_response]
    by simp
qed

text \<open>
  What the search does when a page fails: a first page that raises or is not
  \<^verbatim>\<open>OK\<close> gives the empty list; a later page that raises ends the loop with the
  entities of the pages before it.  The status of a later page is not looked at: the page
  is parsed and its token followed like those of a page with status \<^verbatim>\<open>OK\<close>.
\<close>

lemma first_page_exception:
  "net (sent @ [NearbySearch la lo r]) = RequestException \<Longrightarrow>
   paginated_search parse net sent la lo r max_pages = (sent @ [NearbySearch la lo r], [])"
  by (simp add: paginated_search_def requests_get_def)

lemma first_page_not_ok:
  "net (sent @ [NearbySearch la lo r]) = Json resp \<Longrightarrow> status resp \<noteq> Some ''OK'' \<Longrightarrow>
   paginated_search parse net sent la lo r max_pages = (sent @ [NearbySearch la lo r], [])"
  by (simp add: paginated_search_def requests_get_def)

lemma later_page_exception:
  "net (sent @ [PageToken t]) = RequestException \<Longrightarrow> t \<noteq> [] \<Longrightarrow> page_count < max_pages \<Longrightarrow>
   pagination_loop parse net max_pages sent restaurants (Some t) page_count =
     (sent @ [PageToken t], restaurants)"
  by (subst pagination_loop.simps) simp

lemma later_page_not_ok_is_parsed:
  "net (sent @ [PageToken t]) = Json resp \<Longrightarrow> t \<noteq> [] \<Longrightarrow> page_count < max_pages \<Longrightarrow>
   pagination_loop parse net max_pages sent restaurants (Some t) page_count =
     pagination_loop parse net max_pages (sent @ [PageToken t]) (restaurants @ parse resp)
       (next_page_token resp) (page_count + 1)"
  by (subst pagination_loop.simps) simp

text \<open>
  Claim C9.  The claim: when a page carries a status other than \<^verbatim>\<open>OK\<close>, the search
  returns the entities of the pages fetched before it.  With a second page of status
  \<^verbatim>\<open>OVER_QUERY_LIMIT\<close> that carries a result, both search functions return the
  entities of the first page followed by the one parsed from the failed page.
\<close>

theorem non_ok_second_page_is_kept:
  "status quota_page \<noteq> Some ''OK''
   \<and> get_restaurants_with_quality quota_on_second_page [] 37.4419 (- 122.1430) 1000 None =
     ([NearbySearch 37.4419 (- 122.1430) 1000, PageToken ''token-2''],
      parse_restaurants_from_response (ok_page [place_a] (Some ''token-2''))
        @ parse_restaurants_from_response quota_page)
   \<and> parse_restaurants_from_response quota_page = [with_quality_score (raw_restaurant place_b)]
   \<and> get_restaurants_near_point quota_on_second_page [] 37.4419 (- 122.1430) 1000 None =
     ([NearbySearch 37.4419 (- 122.1430) 1000, PageToken ''token-2''],
      restaurant_points_of_response (ok_page [place_a] (Some ''token-2''))
        @ restaurant_points_of_response quota_page)
   \<and> restaurant_points_of_response quota_page = [(37.4500, - 122.1500, ''Diner B'')]"
  by (simp add: get_restaurants_with_quality_def get_restaurants_near_point_def
      paginated_search_def requests_get_def
      pagination_loop.simps quota_on_second_page_def quota_page_def ok_page_def get_default_def
      MAX_API_PAGES_def parse_restaurants_from_response_def restaurant_points_of_response_def
      place_b_def)


section \<open>Properties of the distance\<close>












section \<open>Properties of the grid sweep\<close>



text \<open>The float quotient: the rounding inside one binade, and the values used below.\<close>

lemma floor_log2_eq:
  assumes "2 powi e \<le> \<bar>x\<bar>" "\<bar>x\<bar> < 2 powi (e + 1)"
  shows "\<lfloor>log 2 \<bar>x\<bar>\<rfloor> = e"
proof -
  have pos: "0 < \<bar>x\<bar>"
    using assms(1) zero_less_power_int [of "2::real" e] by linarith
  have "(2::real) powr (of_int e) = 2 powi e"
    by (rule powr_real_of_int') simp_all
  moreover have "(2::real) powr (of_int (e + 1)) = 2 powi (e + 1)"
    by (rule powr_real_of_int') simp_all
  then have "(2::real) powr (of_int e + 1) = 2 powi (e + 1)"
    by simp
  ultimately have "2 powr (of_int e) \<le> \<bar>x\<bar> \<and> \<bar>x\<bar> < 2 powr (of_int e + 1)"
    using assms by simp
  then show ?thesis
    using pos by (simp add: floor_log_eq_powr_iff)
qed

lemma binary64_round_in_binade:
  assumes "2 powi e \<le> \<bar>x\<bar>" "\<bar>x\<bar> < 2 powi (e + 1)" "- 1022 \<le> e"
  shows "binary64_round x = of_int (round_ties_even (x / 2 powi (e - 52))) * 2 powi (e - 52)"
proof -
  have "0 < \<bar>x\<bar>"
    using assms(1) zero_less_power_int [of "2::real" e] by linarith
  then have "x \<noteq> 0" by simp
  then show ?thesis
    using floor_log2_eq [OF assms(1,2)] assms(3) by (simp add: binary64_round_def Let_def)
qed



lemma binary64_round_ten: "binary64_round (1 / float_0_1) = 10"
  using binary64_round_in_binade [of 3 "1 / float_0_1"]
  by (simp add: round_ties_even_def float_0_1_def)

lemma floor_exact_nine: "\<lfloor>1 / float_0_1\<rfloor> = 9"
  by (simp add: float_0_1_def)























text \<open>
  The number of steps on floats: the quotient of the floats \<^verbatim>\<open>1.0\<close> and \<^verbatim>\<open>0.1\<close>
  is exactly \<open>10.0\<close> although the exact quotient is below \<open>10\<close>, and the quotient of the
  floats \<^verbatim>\<open>0.3\<close> and \<^verbatim>\<open>0.1\<close> is below \<open>3\<close>.
\<close>

lemma steps_of_float_quotients:
  "py_int (binary64_round (1 / float_0_1)) = 10"
  "\<lfloor>1 / float_0_1\<rfloor> = 9"
  "py_int (binary64_round (float_0_3 / float_0_1)) = 2"
proof -
  show "py_int (binary64_round (1 / float_0_1)) = 10"
    by (simp add: binary64_round_ten py_int_def)
  show "\<lfloor>1 / float_0_1\<rfloor> = 9"
    by (rule floor_exact_nine)
  have v: "binary64_round (float_0_3 / float_0_1) = 6755399441055743 / 2251799813685248"
    using binary64_round_in_binade [of 1 "float_0_3 / float_0_1"]
    by (simp add: round_ties_even_def float_0_1_def float_0_3_def)
  show "py_int (binary64_round (float_0_3 / float_0_1)) = 2"
    unfolding v by (simp add: py_int_def)
qed









end
